theory Spec2Isabelle
  imports Complex_Main "HOL-Library.Sublist"
begin

section \<open>Python values\<close>

text \<open>
  A Python \<open>str\<close> is a sequence of Unicode code points, and \<open>len\<close> counts code
  points; some literals of the sources are not ASCII. A string is therefore a list of
  code points, and \<open>py\<close> reads an ASCII literal as one.
\<close>

type_synonym str = "nat list"

definition py :: "string \<Rightarrow> str" where
  "py cs = map of_char cs"

text \<open>
  \<open>str.isspace\<close> on one code point: the white space that \<open>str.strip()\<close> removes
  (the code points CPython lists as white space).
\<close>

definition isspace :: "nat \<Rightarrow> bool" where
  "isspace c =
     ((9 \<le> c \<and> c \<le> 13) \<or> (28 \<le> c \<and> c \<le> 32) \<or> c = 133 \<or> c = 160 \<or> c = 5760
      \<or> (8192 \<le> c \<and> c \<le> 8202) \<or> c = 8232 \<or> c = 8233 \<or> c = 8239 \<or> c = 8287
      \<or> c = 12288)"

text \<open>\<open>s.strip()\<close>: leading and trailing white space removed.\<close>

definition strip :: "str \<Rightarrow> str" where
  "strip s = rev (dropWhile isspace (rev (dropWhile isspace s)))"

text \<open>
  \<open>s.lower()\<close>. The model maps the ASCII capitals \<open>A\<close> to \<open>Z\<close> and leaves every
  other code point as it is: this is \<open>str.lower\<close> on text whose cased letters are ASCII.
  (Python also lowers cased letters beyond ASCII; the configured keywords have none.)
\<close>

definition lower :: "str \<Rightarrow> str" where
  "lower s = map (\<lambda>c. if 65 \<le> c \<and> c \<le> 90 then c + 32 else c) s"

text \<open>\<open>kw in s\<close> on strings: \<open>kw\<close> occurs in \<open>s\<close> as a contiguous run.\<close>

fun contains :: "str \<Rightarrow> str \<Rightarrow> bool" where
  "contains kw [] = (kw = [])"
| "contains kw (c # cs) = (prefix kw (c # cs) \<or> contains kw cs)"

section \<open>core\_models: enumerations\<close>

datatype Stage =
    PROBLEM_CLARIFICATION
  | THOUGHT_ARTICULATION
  | COMPLEXITY_ANALYSIS
  | PSEUDOCODE_DESIGN
  | EDGE_CASE_CHECK
  | FOLLOW_UP
  | PATTERN_SUMMARY

datatype ExceptionLevel = CRITICAL | ERROR | WARNING | INFO

text \<open>\<open>stage.name\<close>, the identifier of an enumeration member.\<close>

fun Stage_name :: "Stage \<Rightarrow> str" where
  "Stage_name PROBLEM_CLARIFICATION = py ''PROBLEM_CLARIFICATION''"
| "Stage_name THOUGHT_ARTICULATION = py ''THOUGHT_ARTICULATION''"
| "Stage_name COMPLEXITY_ANALYSIS = py ''COMPLEXITY_ANALYSIS''"
| "Stage_name PSEUDOCODE_DESIGN = py ''PSEUDOCODE_DESIGN''"
| "Stage_name EDGE_CASE_CHECK = py ''EDGE_CASE_CHECK''"
| "Stage_name FOLLOW_UP = py ''FOLLOW_UP''"
| "Stage_name PATTERN_SUMMARY = py ''PATTERN_SUMMARY''"

text \<open>
  The values a \<open>Dict[str, Any]\<close> of the sources holds: \<open>None\<close>, booleans, integers,
  strings, stages and lists of these.
\<close>

datatype pyval =
    PyNone
  | PyBool bool
  | PyInt int
  | PyStr str
  | PyStage Stage
  | PyList "pyval list"

type_synonym pydict = "str \<rightharpoonup> pyval"

section \<open>core\_models: constants\<close>

text \<open>
  \<open>STAGE_TRANSITION_RULES\<close> is a dictionary literal whose values are a stage or
  \<open>None\<close>: an association list in the order of the source.
\<close>

definition STAGE_TRANSITION_RULES :: "(Stage \<times> Stage option) list" where
  "STAGE_TRANSITION_RULES =
     [(PROBLEM_CLARIFICATION, Some THOUGHT_ARTICULATION),
      (THOUGHT_ARTICULATION, Some COMPLEXITY_ANALYSIS),
      (COMPLEXITY_ANALYSIS, Some PSEUDOCODE_DESIGN),
      (PSEUDOCODE_DESIGN, Some EDGE_CASE_CHECK),
      (EDGE_CASE_CHECK, Some FOLLOW_UP),
      (FOLLOW_UP, Some PATTERN_SUMMARY),
      (PATTERN_SUMMARY, None)]"

definition SKIPPABLE_STAGES :: "Stage set" where
  "SKIPPABLE_STAGES = {COMPLEXITY_ANALYSIS, PATTERN_SUMMARY}"

definition CRITICAL_STAGES :: "Stage set" where
  "CRITICAL_STAGES = {THOUGHT_ARTICULATION, PSEUDOCODE_DESIGN, EDGE_CASE_CHECK}"

text \<open>
  \<open>ExceptionHandler._get_next_stage\<close>: \<open>STAGE_TRANSITION_RULES.get(current)\<close>. A key
  that is missing and a key whose value is \<open>None\<close> both give \<open>None\<close>.
\<close>

definition get_next_stage :: "Stage \<Rightarrow> Stage option" where
  "get_next_stage current =
     (case map_of STAGE_TRANSITION_RULES current of None \<Rightarrow> None | Some v \<Rightarrow> v)"

section \<open>core\_models: messages, session state, responses\<close>

text \<open>
  The dataclasses. A \<open>float\<close> field holds a clock reading that no function of the
  model computes with; it is a real number here.
\<close>

record Message =
  role :: str
  content :: str
  timestamp :: real
  stage :: Stage

record InterviewContext =
  session_id :: str
  problem_text :: str
  problem_metadata :: pydict
  current_stage :: Stage
  stage_history :: "Stage list"
  stage_start_time :: real
  conversation_history :: "Message list"
  current_user_input :: str
  identified_pattern :: "str option"
  complexity_expectation :: "str option"
  user_approach :: "str option"
  pseudocode :: "str option"
  detected_issues :: "str list"
  consecutive_invalid_inputs :: int
  skip_requested :: bool
  skipped_stages :: "Stage list"
  frustration_detected :: bool
  answer_requests :: int
  metadata :: pydict
  user_profile :: "pydict option"

text \<open>
  \<open>ModuleResponse\<close>. Its field \<open>metadata\<close> is \<open>response_metadata\<close> here, the name
  \<open>metadata\<close> being the session state's.
\<close>

record ModuleResponse =
  success :: bool
  assistant_message :: str
  next_stage :: "Stage option"
  context_updates :: pydict
  response_metadata :: pydict
  error_message :: "str option"
  exception_level :: "ExceptionLevel option"

section \<open>Exceptions\<close>

text \<open>
  The exception classes of \<open>exception_handler\<close> with their fields (message and level;
  message and input type for \<open>InvalidInputException\<close>, whose level is always
  \<open>INFO\<close>), the built-in exceptions the sources raise, any other subclass of
  \<open>Exception\<close> with its text, and \<open>NonException\<close> for a \<open>BaseException\<close> that is
  not an \<open>Exception\<close> (\<open>KeyboardInterrupt\<close>, \<open>SystemExit\<close>), which
  \<open>except Exception\<close> does not catch.
\<close>

datatype exc =
    InterviewCoachException str ExceptionLevel
  | LLMCallException str ExceptionLevel
  | StateInconsistencyException str ExceptionLevel
  | InvalidInputException str str
  | ValueError str
  | KeyError str
  | OtherException str
  | NonException str

text \<open>\<open>str(e)\<close>: the message the exception was built with.\<close>

fun exc_str :: "exc \<Rightarrow> str" where
  "exc_str (InterviewCoachException m l) = m"
| "exc_str (LLMCallException m l) = m"
| "exc_str (StateInconsistencyException m l) = m"
| "exc_str (InvalidInputException m t) = m"
| "exc_str (ValueError m) = m"
| "exc_str (KeyError m) = m"
| "exc_str (OtherException m) = m"
| "exc_str (NonException m) = m"

text \<open>
  Building a \<open>ModuleResponse\<close> runs \<open>__post_init__\<close>, which raises \<open>ValueError\<close>
  for a success response without text and for a failure response without error message
  (\<open>not x\<close> holds for \<open>None\<close> and for the empty string).
\<close>

definition ModuleResponse_init ::
  "bool \<Rightarrow> str \<Rightarrow> Stage option \<Rightarrow> pydict \<Rightarrow> pydict \<Rightarrow> str option \<Rightarrow> ExceptionLevel option
     \<Rightarrow> exc + ModuleResponse" where
  "ModuleResponse_init succ msg nxt updates meta err lvl =
     (if succ \<and> msg = [] then
        Inl (ValueError (py ''Success response must have assistant_message''))
      else if \<not> succ \<and> (err = None \<or> err = Some []) then
        Inl (ValueError (py ''Failed response must have error_message''))
      else
        Inr \<lparr>success = succ, assistant_message = msg, next_stage = nxt,
             context_updates = updates, response_metadata = meta,
             error_message = err, exception_level = lvl\<rparr>)"

text \<open>
  The factory functions. \<open>create_success_response\<close> collects its keyword arguments
  into \<open>context_updates\<close>; the model takes that dictionary as its third argument.
\<close>

definition create_success_response :: "str \<Rightarrow> Stage option \<Rightarrow> pydict \<Rightarrow> exc + ModuleResponse" where
  "create_success_response message nxt updates =
     ModuleResponse_init True message nxt updates Map.empty None None"

definition create_error_response :: "str \<Rightarrow> ExceptionLevel \<Rightarrow> exc + ModuleResponse" where
  "create_error_response error_msg level =
     ModuleResponse_init False
       (py ''I encountered an issue. Let me try to help you another way.'')
       None Map.empty Map.empty (Some error_msg) (Some level)"

text \<open>
  \<open>create_mock_context\<close>; \<open>now\<close> is the clock reading
  \<open>datetime.now().timestamp()\<close>.
\<close>

definition create_mock_context :: "real \<Rightarrow> str \<Rightarrow> Stage \<Rightarrow> str \<Rightarrow> InterviewContext" where
  "create_mock_context now problem cur sid =
     \<lparr>session_id = sid,
      problem_text = problem,
      problem_metadata =
        [py ''difficulty'' \<mapsto> PyStr (py ''Medium''),
         py ''tags'' \<mapsto> PyList [PyStr (py ''Array'')]],
      current_stage = cur,
      stage_history = [],
      stage_start_time = now,
      conversation_history = [],
      current_user_input = [],
      identified_pattern = None,
      complexity_expectation = None,
      user_approach = None,
      pseudocode = None,
      detected_issues = [],
      consecutive_invalid_inputs = 0,
      skip_requested = False,
      skipped_stages = [],
      frustration_detected = False,
      answer_requests = 0,
      metadata = Map.empty,
      user_profile = None\<rparr>"

section \<open>The world a call runs in\<close>

text \<open>
  The handlers receive the session state by reference, write to the logger and sleep.
  The model passes a world: the session object, and the trace of what the call did
  outside it. A log record is kept with its level (the text of log lines is not
  modelled); a sleep with its duration; a call of a module's \<open>validate_context\<close> and
  of its \<open>process\<close> each leave one event.
\<close>

datatype log_level = LOG_INFO | LOG_WARNING | LOG_ERROR | LOG_CRITICAL

datatype event = Logged log_level | Slept real | Validated | Processed

record world =
  ctx :: InterviewContext
  trace :: "event list"

definition logger :: "log_level \<Rightarrow> world \<Rightarrow> world" where
  "logger l w = w\<lparr>trace := trace w @ [Logged l]\<rparr>"

definition time_sleep :: "real \<Rightarrow> world \<Rightarrow> world" where
  "time_sleep d w = w\<lparr>trace := trace w @ [Slept d]\<rparr>"

text \<open>The durations slept and the number of \<open>process\<close> calls, read off a trace.\<close>

fun sleeps :: "event list \<Rightarrow> real list" where
  "sleeps [] = []"
| "sleeps (Slept d # es) = d # sleeps es"
| "sleeps (e # es) = sleeps es"

fun process_calls :: "event list \<Rightarrow> nat" where
  "process_calls [] = 0"
| "process_calls (Processed # es) = Suc (process_calls es)"
| "process_calls (e # es) = process_calls es"

section \<open>exception\_handler: ExceptionHandler\<close>

text \<open>
  The private helpers (their names lose the leading underscore). Each looks a stage up
  in a dictionary literal with a default, as the source does.
\<close>

definition get_fallback_template :: "Stage \<Rightarrow> str" where
  "get_fallback_template stg =
     (let templates =
        [(PROBLEM_CLARIFICATION,
            py ''Let's make sure we understand the problem. What are the inputs and expected outputs?''),
         (THOUGHT_ARTICULATION,
            py ''Let's think about this step by step. What would be the simplest approach to solve this, even if not optimal?''),
         (COMPLEXITY_ANALYSIS,
            py ''Can you analyze the time and space complexity of your approach?''),
         (PSEUDOCODE_DESIGN,
            py ''Now let's write out the pseudocode or main logic structure.''),
         (EDGE_CASE_CHECK,
            py ''What edge cases should we consider? Think about empty inputs, extreme values, etc.''),
         (FOLLOW_UP,
            py ''Great work! Now let's think about: could we optimize this further?''),
         (PATTERN_SUMMARY,
            py ''Let's summarize: what pattern did we use here, and when would you use it again?'')]
      in case map_of templates stg of
           Some t \<Rightarrow> t
         | None \<Rightarrow> py ''Let's continue with the next step.'')"

text \<open>The stage names of \<open>_get_stage_name_cn\<close> are Chinese: code points.\<close>

definition get_stage_name_cn :: "Stage \<Rightarrow> str" where
  "get_stage_name_cn stg =
     (let names =
        [(PROBLEM_CLARIFICATION, [39064, 24847, 30830, 35748]),
         (THOUGHT_ARTICULATION, [24605, 36335, 35762, 35299]),
         (COMPLEXITY_ANALYSIS, [22797, 26434, 24230, 20998, 26512]),
         (PSEUDOCODE_DESIGN, [20195, 30721, 23454, 29616]),
         (EDGE_CASE_CHECK, [36793, 30028, 26816, 26597]),
         (FOLLOW_UP, [28145, 20837, 35752, 35770]),
         (PATTERN_SUMMARY, [24635, 32467])]
      in case map_of names stg of Some n \<Rightarrow> n | None \<Rightarrow> Stage_name stg)"

definition get_skip_reminder :: "Stage \<Rightarrow> str" where
  "get_skip_reminder stg =
     (let reminders =
        [(COMPLEXITY_ANALYSIS, py ''discussing complexity shows analytical maturity''),
         (PATTERN_SUMMARY, py ''summarizing patterns helps you in future problems'')]
      in case map_of reminders stg of Some r \<Rightarrow> r | None \<Rightarrow> py ''this step is valuable'')"

text \<open>
  The handlers take the world in the place of \<open>context\<close> and return what the call
  returns (\<open>Inl\<close> an exception that leaves the call) with the world after the call.
\<close>

definition handle_skip_request :: "world \<Rightarrow> (exc + ModuleResponse) \<times> world" where
  "handle_skip_request w =
     (let cur = current_stage (ctx w) in
      if cur \<in> CRITICAL_STAGES then
        (let w1 = logger LOG_WARNING w in
         (create_success_response
            (py ''I understand you want to move forward, but this stage is crucial for interview success. ''
             @ py ''In real interviews, skipping **'' @ get_stage_name_cn cur
             @ py ''** would be a red flag. ''
             @ py ''How about we spend just 2-3 minutes on this? It'll make a big difference.'')
            None
            [py ''skip_requested'' \<mapsto> PyBool True],
          w1))
      else if cur \<in> SKIPPABLE_STAGES then
        (let nxt = get_next_stage cur;
             skipped = skipped_stages (ctx w) @ [cur];
             w1 = logger LOG_INFO w in
         (create_success_response
            (py ''Okay, we can move on for now. But remember, in a real interview, ''
             @ get_skip_reminder cur @ py ''. Let's continue to the next part.'')
            nxt
            [py ''skipped_stages'' \<mapsto> PyList (map PyStage skipped)],
          w1))
      else
        (create_success_response
           (py ''Let's complete this part first before moving on.'') None Map.empty,
         w))"

definition trigger_help_mode :: "world \<Rightarrow> (exc + ModuleResponse) \<times> world" where
  "trigger_help_mode w =
     (create_success_response
        (py ''I notice you might be stuck. No worries! Let me help you with a more detailed hint.''
         @ [10, 10]
         @ py ''Try thinking about it this way: ''
         @ [91, 20855, 20307, 30340, 24341, 23548, 38382, 39064, 20250, 22312, 36825, 37324,
            29983, 25104, 93])
        None
        [py ''consecutive_invalid_inputs'' \<mapsto> PyInt 0,
         py ''help_mode_triggered'' \<mapsto> PyBool True],
      w)"

text \<open>
  \<open>templates.get(input_type, templates["empty"])\<close> evaluates the default first, a
  subscript that raises \<open>KeyError\<close> on a missing key.
\<close>

definition handle_invalid_input :: "world \<Rightarrow> str \<Rightarrow> (exc + ModuleResponse) \<times> world" where
  "handle_invalid_input w input_type =
     (let templates =
        [(py ''empty'', py ''I didn't catch that. Could you share your thoughts?''),
         (py ''too_short'', py ''That's a bit brief! Could you elaborate a bit more?''),
         (py ''off_topic'', py ''Hmm, that seems unrelated. Let me rephrase the question.''),
         (py ''repeated'',
            py ''I notice you've said something similar before. Want to try a different angle?'')];
          invalid_count = consecutive_invalid_inputs (ctx w) + 1
      in
      if invalid_count \<ge> 3 then trigger_help_mode (logger LOG_WARNING w)
      else
        (case map_of templates (py ''empty'') of
           None \<Rightarrow> (Inl (KeyError (py ''empty'')), w)
         | Some dflt \<Rightarrow>
             (create_success_response
                (case map_of templates input_type of Some t \<Rightarrow> t | None \<Rightarrow> dflt)
                None
                [py ''consecutive_invalid_inputs'' \<mapsto> PyInt invalid_count],
              w)))"

text \<open>
  \<open>random.choice(seq)\<close> returns \<open>seq[i]\<close> for an index \<open>i\<close> below \<open>len(seq)\<close>
  that the generator draws, and raises \<open>IndexError\<close> on an empty sequence. The draw is
  an input of the model and is reduced modulo the length, so that every natural number
  stands for a draw.
\<close>

datatype 'a outcome = Returns 'a | Raises exc

definition random_choice :: "nat \<Rightarrow> 'a list \<Rightarrow> 'a outcome" where
  "random_choice draw xs =
     (if xs = [] then Raises (OtherException (py ''Cannot choose from an empty sequence''))
      else Returns (xs ! (draw mod length xs)))"

definition encouragements :: "str list" where
  "encouragements =
     [py ''I can tell this is challenging, and that's completely normal! Even experienced engineers struggle with these problems at first.'',
      py ''Let me help you break this down into smaller steps. We'll tackle it together.'',
      py ''How about we approach this differently? Sometimes a fresh angle makes all the difference.'']"

definition hint_offer :: str where
  "hint_offer = [10, 10] @ py ''Let me give you a helpful hint to get started.''"

definition handle_frustration :: "world \<Rightarrow> nat \<Rightarrow> (exc + ModuleResponse) \<times> world" where
  "handle_frustration w draw =
     (let w1 = logger LOG_INFO w in
      case random_choice draw encouragements of
        Raises e \<Rightarrow> (Inl e, w1)
      | Returns encouragement \<Rightarrow>
          (create_success_response
             (encouragement @ hint_offer)
             None
             [py ''frustration_detected'' \<mapsto> PyBool True,
              py ''hint_level'' \<mapsto> PyStr (py ''detailed'')],
           w1))"

text \<open>
  \<open>handle_llm_failure\<close> returns \<open>None\<close> to ask for a retry: its result is an optional
  response. \<open>2 ** retry_count\<close> is an integer for a count from 0 on and a fraction below
  it; the model keeps the exact power. The counts are Python integers.
\<close>

definition handle_llm_failure ::
  "world \<Rightarrow> exc \<Rightarrow> int \<Rightarrow> int \<Rightarrow> (exc + ModuleResponse option) \<times> world" where
  "handle_llm_failure w error retry_count max_retries =
     (if retry_count < max_retries then
        (let wait_time = 2 powi retry_count;
             w1 = logger LOG_WARNING w;
             w2 = time_sleep wait_time w1
         in (Inr None, w2))
      else
        (let w1 = logger LOG_ERROR w;
             fallback_msg = get_fallback_template (current_stage (ctx w1))
         in (map_sum id Some
               (create_success_response fallback_msg None
                  [py ''fallback_used'' \<mapsto> PyBool True]),
             w1)))"

section \<open>exception\_handler: InputValidator\<close>

text \<open>\<open>xs[-n:]\<close> for a positive \<open>n\<close>: the last \<open>n\<close> elements, all of a shorter list.\<close>

definition last_n :: "nat \<Rightarrow> 'a list \<Rightarrow> 'a list" where
  "last_n n xs = drop (length xs - n) xs"

definition off_topic_keywords :: "str list" where
  "off_topic_keywords =
     [py ''weather'', [22825, 27668], [21507, 39277], py ''lunch'', [28216, 25103],
      py ''game'']"

definition validate :: "str \<Rightarrow> InterviewContext \<Rightarrow> bool \<times> str option" where
  "validate user_input context =
     (if user_input = [] \<or> strip user_input = [] then (False, Some (py ''empty''))
      else if length (strip user_input) < 5 then (False, Some (py ''too_short''))
      else if length (conversation_history context) \<ge> 3
              \<and> strip user_input
                    \<in> set (map content
                             (filter (\<lambda>msg. role msg = py ''user'')
                                (last_n 3 (conversation_history context))))
        then (False, Some (py ''repeated''))
      else if list_ex (\<lambda>kw. contains kw (lower user_input)) off_topic_keywords
        then (False, Some (py ''off_topic''))
      else (True, None))"

section \<open>exception\_handler: safe\_module\_call\<close>

text \<open>
  A module is an object with a name (\<open>module_name\<close> is reserved in Isabelle, so the
  field is \<open>module_name'\<close>) and the two methods the wrapper calls. A method
  returns or raises, and nothing in Python keeps it from changing the session object it
  is given: it yields its outcome and the session after the call. \<open>process\<close> may return
  any value; only an instance of \<open>ModuleResponse\<close> passes the wrapper's check.
\<close>

datatype process_value = Response ModuleResponse | NotResponse pyval

record ModuleInterface =
  module_name' :: str
  validate_context :: "InterviewContext \<Rightarrow> bool outcome \<times> InterviewContext"
  process :: "InterviewContext \<Rightarrow> process_value outcome \<times> InterviewContext"

text \<open>
  The \<open>except\<close> clauses of \<open>safe_module_call\<close>, in the order of the source. The
  failure handler is called with its default counts, 0 and 3. A response built inside a
  clause can itself raise; that exception leaves the wrapper, as does an exception that
  is not an \<open>Exception\<close>.
\<close>

fun safe_module_call_except ::
  "ModuleInterface \<Rightarrow> exc \<Rightarrow> world \<Rightarrow> (exc + ModuleResponse option) \<times> world" where
  "safe_module_call_except m (LLMCallException msg lvl) w =
     handle_llm_failure w (LLMCallException msg lvl) 0 3"
| "safe_module_call_except m (StateInconsistencyException msg lvl) w =
     (let w1 = logger LOG_ERROR w
      in (map_sum id Some (create_error_response msg ERROR), w1))"
| "safe_module_call_except m (NonException msg) w = (Inl (NonException msg), w)"
| "safe_module_call_except m e w =
     (let w1 = logger LOG_CRITICAL w
      in (map_sum id Some
            (create_error_response (py ''Unexpected error: '' @ exc_str e) CRITICAL),
          w1))"

definition safe_module_call ::
  "ModuleInterface \<Rightarrow> world \<Rightarrow> (exc + ModuleResponse option) \<times> world" where
  "safe_module_call m w =
     (let (valid, c1) = validate_context m (ctx w);
          w1 = w\<lparr>ctx := c1, trace := trace w @ [Validated]\<rparr>
      in case valid of
           Raises e \<Rightarrow> safe_module_call_except m e w1
         | Returns ok \<Rightarrow>
             if \<not> ok then
               safe_module_call_except m
                 (StateInconsistencyException
                    (py ''Context validation failed for '' @ module_name' m) ERROR)
                 w1
             else
               (let (response, c2) = process m (ctx w1);
                    w2 = w1\<lparr>ctx := c2, trace := trace w1 @ [Processed]\<rparr>
                in case response of
                     Raises e \<Rightarrow> safe_module_call_except m e w2
                   | Returns (NotResponse v) \<Rightarrow>
                       safe_module_call_except m
                         (ValueError (module_name' m @ py '' returned invalid response type''))
                         w2
                   | Returns (Response r) \<Rightarrow> (Inr (Some r), w2)))"

section \<open>Concrete sessions and modules\<close>

text \<open>
  Inputs for the concrete checks below: the session \<open>create_mock_context\<close> builds
  with its default arguments, in a world with an empty trace; a module whose
  \<open>process\<close> always raises \<open>LLMCallException\<close> (built with the default level); a
  module whose \<open>process\<close> returns \<open>None\<close>; and a session with four messages in its
  log.
\<close>

definition mock_world :: "Stage \<Rightarrow> world" where
  "mock_world cur =
     \<lparr>ctx = create_mock_context 0 (py ''Sample problem'') cur (py ''test_session''),
      trace = []\<rparr>"

definition mock_world_with_count :: "Stage \<Rightarrow> int \<Rightarrow> world" where
  "mock_world_with_count cur n =
     \<lparr>ctx = (create_mock_context 0 (py ''Sample problem'') cur (py ''test_session''))
              \<lparr>consecutive_invalid_inputs := n\<rparr>,
      trace = []\<rparr>"

definition failing_module :: ModuleInterface where
  "failing_module =
     \<lparr>module_name' = py ''FailingModule'',
      validate_context = (\<lambda>c. (Returns True, c)),
      process = (\<lambda>c. (Raises (LLMCallException (py ''upstream unavailable'') ERROR), c))\<rparr>"

definition malformed_module :: ModuleInterface where
  "malformed_module =
     \<lparr>module_name' = py ''MalformedModule'',
      validate_context = (\<lambda>c. (Returns True, c)),
      process = (\<lambda>c. (Returns (NotResponse PyNone), c))\<rparr>"

definition message_of :: "string \<Rightarrow> string \<Rightarrow> Message" where
  "message_of r text =
     \<lparr>role = py r, content = py text, timestamp = 0, stage = PROBLEM_CLARIFICATION\<rparr>"

definition talked_context :: InterviewContext where
  "talked_context =
     (create_mock_context 0 (py ''Sample problem'') PROBLEM_CLARIFICATION (py ''test_session''))
       \<lparr>conversation_history :=
          [message_of ''user'' ''something older'',
           message_of ''assistant'' ''What are the inputs?'',
           message_of ''user'' ''The weather input is an array'',
           message_of ''assistant'' ''Go on.'']\<rparr>"

section \<open>Auxiliary facts\<close>

lemma py_eq_iff [simp]: "py a = py b \<longleftrightarrow> a = b"
  unfolding py_def by (simp add: inj_map_eq_map inj_of_char)

lemma py_Nil_iff [simp]: "py a = [] \<longleftrightarrow> a = []"
  by (simp add: py_def)

lemma create_success_response_ok:
  "message \<noteq> [] \<Longrightarrow>
   create_success_response message nxt updates =
     Inr \<lparr>success = True, assistant_message = message, next_stage = nxt,
          context_updates = updates, response_metadata = Map.empty,
          error_message = None, exception_level = None\<rparr>"
  by (simp add: create_success_response_def ModuleResponse_init_def)

lemma create_error_response_ok:
  "error_msg \<noteq> [] \<Longrightarrow>
   create_error_response error_msg level =
     Inr \<lparr>success = False,
          assistant_message = py ''I encountered an issue. Let me try to help you another way.'',
          next_stage = None, context_updates = Map.empty, response_metadata = Map.empty,
          error_message = Some error_msg, exception_level = Some level\<rparr>"
  by (simp add: create_error_response_def ModuleResponse_init_def)

lemma sleeps_append [simp]: "sleeps (xs @ ys) = sleeps xs @ sleeps ys"
  by (induction xs rule: sleeps.induct) simp_all

lemma process_calls_append [simp]:
  "process_calls (xs @ ys) = process_calls xs + process_calls ys"
  by (induction xs rule: process_calls.induct) simp_all

lemma get_fallback_template_nonempty: "get_fallback_template stg \<noteq> []"
  by (cases stg) (simp_all add: get_fallback_template_def)

lemma Stage_UNIV:
  "(UNIV :: Stage set) =
     {PROBLEM_CLARIFICATION, THOUGHT_ARTICULATION, COMPLEXITY_ANALYSIS, PSEUDOCODE_DESIGN,
      EDGE_CASE_CHECK, FOLLOW_UP, PATTERN_SUMMARY}"
proof -
  have "s \<in> {PROBLEM_CLARIFICATION, THOUGHT_ARTICULATION, COMPLEXITY_ANALYSIS,
      PSEUDOCODE_DESIGN, EDGE_CASE_CHECK, FOLLOW_UP, PATTERN_SUMMARY}" for s :: Stage
    by (cases s) simp_all
  then show ?thesis by blast
qed

text \<open>A string strips to nothing exactly when all of it is white space.\<close>

lemma strip_Nil_iff: "strip s = [] \<longleftrightarrow> (\<forall>c \<in> set s. isspace c)"
proof -
  have "strip s = [] \<longleftrightarrow> (\<forall>c \<in> set (dropWhile isspace s). isspace c)"
    by (simp add: strip_def dropWhile_eq_Nil_conv)
  also have "\<dots> \<longleftrightarrow> dropWhile isspace s = []"
  proof
    assume all: "\<forall>c \<in> set (dropWhile isspace s). isspace c"
    show "dropWhile isspace s = []"
    proof (rule ccontr)
      assume ne: "dropWhile isspace s \<noteq> []"
      then have "\<not> isspace (hd (dropWhile isspace s))" by (rule hd_dropWhile)
      moreover from ne have "hd (dropWhile isspace s) \<in> set (dropWhile isspace s)" by simp
      ultimately show False using all by blast
    qed
  qed (auto dest: set_dropWhileD)
  also have "\<dots> \<longleftrightarrow> (\<forall>c \<in> set s. isspace c)"
    by (simp add: dropWhile_eq_Nil_conv)
  finally show ?thesis .
qed

text \<open>
  \<open>kw in s.lower()\<close> says that some run of \<open>s\<close> is \<open>kw\<close> up to the case of its
  letters.
\<close>

lemma contains_iff_sublist: "contains kw s \<longleftrightarrow> sublist kw s"
  by (induction s) (simp_all add: sublist_Cons_right)

lemma lower_append [simp]: "lower (a @ b) = lower a @ lower b"
  by (simp add: lower_def)

lemma lower_eq_appendD:
  "lower s = p @ q \<Longrightarrow> \<exists>b r. s = b @ r \<and> lower b = p \<and> lower r = q"
  unfolding lower_def map_eq_append_conv by blast

lemma contains_lower_iff:
  "contains kw (lower s)
   \<longleftrightarrow> (\<exists>before mid after. s = before @ mid @ after \<and> lower mid = kw)"
proof
  assume "contains kw (lower s)"
  then have "sublist kw (lower s)" by (simp add: contains_iff_sublist)
  then obtain p q where "lower s = p @ kw @ q"
    unfolding sublist_def by blast
  then obtain b r where s: "s = b @ r" and r: "lower r = kw @ q"
    using lower_eq_appendD [of s p "kw @ q"] by blast
  from r obtain m a where "r = m @ a" and "lower m = kw"
    using lower_eq_appendD [of r kw q] by blast
  with s show "\<exists>before mid after. s = before @ mid @ after \<and> lower mid = kw"
    by blast
next
  assume "\<exists>before mid after. s = before @ mid @ after \<and> lower mid = kw"
  then obtain b m a where "s = b @ m @ a" and "lower m = kw" by blast
  then have "lower s = lower b @ kw @ lower a" by simp
  then have "sublist kw (lower s)"
    unfolding sublist_def by (intro exI)
  then show "contains kw (lower s)"
    by (simp add: contains_iff_sublist)
qed

section \<open>Generation failure: backoff, then the fallback template\<close>

text \<open>
  Claim C1, as the code has it. With \<open>max_retries = 3\<close> the failure handler, called with
  the retry counts 0, 1 and 2 in turn, asks for a retry each time (it returns \<open>None\<close>)
  after sleeping 1, 2 and 4 time units; called with the count 3 it sleeps no more and
  returns a success response with the fallback template of the session's current stage,
  \<open>fallback_used\<close> set to true and no stage change. The handler attempts no generation
  itself: the attempts and the counting are its caller's.
\<close>

theorem llm_failure_backoff_then_fallback:
  "(let (r0, w1) = handle_llm_failure w e0 0 3;
        (r1, w2) = handle_llm_failure w1 e1 1 3;
        (r2, w3) = handle_llm_failure w2 e2 2 3;
        (r3, w4) = handle_llm_failure w3 e3 3 3
    in r0 = Inr None \<and> r1 = Inr None \<and> r2 = Inr None
       \<and> sleeps (trace w1) = sleeps (trace w) @ [1]
       \<and> sleeps (trace w2) = sleeps (trace w) @ [1, 2]
       \<and> sleeps (trace w3) = sleeps (trace w) @ [1, 2, 4]
       \<and> sleeps (trace w4) = sleeps (trace w) @ [1, 2, 4]
       \<and> (\<exists>r. r3 = Inr (Some r)
             \<and> success r
             \<and> assistant_message r = get_fallback_template (current_stage (ctx w))
             \<and> next_stage r = None
             \<and> context_updates r = [py ''fallback_used'' \<mapsto> PyBool True]))"
  by (simp add: handle_llm_failure_def logger_def time_sleep_def power_int_def
      create_success_response_ok get_fallback_template_nonempty)

text \<open>
  The claim as stated fails on the only place of the code that attempts generation: for
  a module whose \<open>process\<close> raises \<open>LLMCallException\<close> on every call, one call of
  \<open>safe_module_call\<close> calls \<open>process\<close> once, sleeps once (1 time unit) and returns
  \<open>None\<close>: no fourth attempt, no waits of 2 and 4, no fallback response.
\<close>

theorem wrapper_single_attempt_counterexample:
  "fst (safe_module_call failing_module (mock_world COMPLEXITY_ANALYSIS)) = Inr None
   \<and> process_calls
        (trace (snd (safe_module_call failing_module (mock_world COMPLEXITY_ANALYSIS)))) = 1
   \<and> sleeps
        (trace (snd (safe_module_call failing_module (mock_world COMPLEXITY_ANALYSIS)))) = [1]"
  by (simp add: safe_module_call_def failing_module_def mock_world_def
      handle_llm_failure_def logger_def time_sleep_def power_int_def)

section \<open>A result that is not a ModuleResponse\<close>

text \<open>
  Claim C2, as the code has it. When the precondition check has passed and \<open>process\<close>
  returns a value that is not a \<open>ModuleResponse\<close>, the wrapper raises \<open>ValueError\<close>,
  which its last clause turns into a failure response: \<open>success\<close> false, severity
  \<open>CRITICAL\<close>, the error message naming the module, no stage change and no updates. The
  value \<open>process\<close> returned does not reach the caller.
\<close>

theorem malformed_result_critical_failure:
  assumes "validate_context m (ctx w) = (Returns True, c1)"
    and "process m c1 = (Returns (NotResponse v), c2)"
  shows "fst (safe_module_call m w) =
           Inr (Some \<lparr>success = False,
                  assistant_message =
                    py ''I encountered an issue. Let me try to help you another way.'',
                  next_stage = None, context_updates = Map.empty,
                  response_metadata = Map.empty,
                  error_message =
                    Some (py ''Unexpected error: '' @ module_name' m
                          @ py '' returned invalid response type''),
                  exception_level = Some CRITICAL\<rparr>)"
  using assms
  by (simp add: safe_module_call_def create_error_response_ok)

theorem malformed_result_critical_failure_witness:
  "validate_context malformed_module (ctx (mock_world PROBLEM_CLARIFICATION))
     = (Returns True, ctx (mock_world PROBLEM_CLARIFICATION))
   \<and> process malformed_module (ctx (mock_world PROBLEM_CLARIFICATION))
     = (Returns (NotResponse PyNone), ctx (mock_world PROBLEM_CLARIFICATION))
   \<and> (\<exists>r. fst (safe_module_call malformed_module (mock_world PROBLEM_CLARIFICATION))
            = Inr (Some r)
         \<and> \<not> success r
         \<and> exception_level r = Some CRITICAL
         \<and> error_message r =
             Some (py ''Unexpected error: MalformedModule returned invalid response type''))"
proof -
  let ?w = "mock_world PROBLEM_CLARIFICATION"
  have v: "validate_context malformed_module (ctx ?w) = (Returns True, ctx ?w)"
    by (simp add: malformed_module_def)
  have p: "process malformed_module (ctx ?w) = (Returns (NotResponse PyNone), ctx ?w)"
    by (simp add: malformed_module_def)
  have n: "py ''Unexpected error: '' @ module_name' malformed_module
             @ py '' returned invalid response type''
           = py ''Unexpected error: MalformedModule returned invalid response type''"
    by (simp add: malformed_module_def py_def)
  show ?thesis
    using v p malformed_result_critical_failure [OF v p] by (simp add: n)
qed

text \<open>
  The claim as stated fails: for the module that returns \<open>None\<close> the response has
  severity \<open>CRITICAL\<close> and the message of an unexpected error, not the severity
  \<open>ERROR\<close> of a state inconsistency.
\<close>

theorem malformed_result_counterexample:
  "fst (safe_module_call malformed_module (mock_world PROBLEM_CLARIFICATION)) =
     Inr (Some \<lparr>success = False,
            assistant_message =
              py ''I encountered an issue. Let me try to help you another way.'',
            next_stage = None, context_updates = Map.empty,
            response_metadata = Map.empty,
            error_message =
              Some (py ''Unexpected error: MalformedModule returned invalid response type''),
            exception_level = Some CRITICAL\<rparr>)
   \<and> CRITICAL \<noteq> ERROR"
  by (simp add: safe_module_call_def malformed_module_def mock_world_def
      create_error_response_ok py_def)

section \<open>The stage transition table\<close>

text \<open>
  Claim C3. The transition table has every one of the 7 stages as a key, each key once.
  Looking a stage up gives the next stage of the chain clarification, articulation,
  complexity, pseudocode, edge case, follow-up, summary; the summary stage is a key too,
  its value is \<open>None\<close>, and its lookup gives no successor.
\<close>

theorem stage_transition_table_total_chain:
  "set (map fst STAGE_TRANSITION_RULES) = UNIV
   \<and> distinct (map fst STAGE_TRANSITION_RULES)
   \<and> length STAGE_TRANSITION_RULES = 7
   \<and> get_next_stage PROBLEM_CLARIFICATION = Some THOUGHT_ARTICULATION
   \<and> get_next_stage THOUGHT_ARTICULATION = Some COMPLEXITY_ANALYSIS
   \<and> get_next_stage COMPLEXITY_ANALYSIS = Some PSEUDOCODE_DESIGN
   \<and> get_next_stage PSEUDOCODE_DESIGN = Some EDGE_CASE_CHECK
   \<and> get_next_stage EDGE_CASE_CHECK = Some FOLLOW_UP
   \<and> get_next_stage FOLLOW_UP = Some PATTERN_SUMMARY
   \<and> map_of STAGE_TRANSITION_RULES PATTERN_SUMMARY = Some None
   \<and> get_next_stage PATTERN_SUMMARY = None"
  unfolding Stage_UNIV
  by (simp add: STAGE_TRANSITION_RULES_def get_next_stage_def)

section \<open>The input validator\<close>

text \<open>
  Claim C4. \<open>validate\<close> classifies by the first check that applies, in this order:
  text that is empty or all white space is \<open>empty\<close>; text whose stripped length is
  under 5 is \<open>too_short\<close>; when the log has at least 3 entries and a message of role
  \<open>user\<close> among its last 3 has the stripped text as its content, the text is
  \<open>repeated\<close>; text in which some run of characters is an off-topic keyword up to the
  case of its letters is \<open>off_topic\<close>; any other text is valid, with no category.
\<close>

theorem validate_priority_classification:
  "validate user_input context =
     (if \<forall>c \<in> set user_input. isspace c then (False, Some (py ''empty''))
      else if length (strip user_input) < 5 then (False, Some (py ''too_short''))
      else if 3 \<le> length (conversation_history context)
              \<and> (\<exists>msg \<in> set (last_n 3 (conversation_history context)).
                    role msg = py ''user'' \<and> content msg = strip user_input)
        then (False, Some (py ''repeated''))
      else if \<exists>kw \<in> set off_topic_keywords. \<exists>before mid after.
                user_input = before @ mid @ after \<and> lower mid = kw
        then (False, Some (py ''off_topic''))
      else (True, None))"
proof -
  have empty:
    "(user_input = [] \<or> strip user_input = []) \<longleftrightarrow> (\<forall>c \<in> set user_input. isspace c)"
    by (auto simp add: strip_Nil_iff)
  have repeated:
    "strip user_input
       \<in> set (map content
                (filter (\<lambda>msg. role msg = py ''user'')
                   (last_n 3 (conversation_history context))))
     \<longleftrightarrow> (\<exists>msg \<in> set (last_n 3 (conversation_history context)).
            role msg = py ''user'' \<and> content msg = strip user_input)"
    by (auto simp add: image_iff)
  have off_topic:
    "list_ex (\<lambda>kw. contains kw (lower user_input)) off_topic_keywords
     \<longleftrightarrow> (\<exists>kw \<in> set off_topic_keywords. \<exists>before mid after.
            user_input = before @ mid @ after \<and> lower mid = kw)"
    by (simp add: list_ex_iff contains_lower_iff)
  show ?thesis
    unfolding validate_def empty repeated off_topic by simp
qed

text \<open>
  The classification at concrete inputs, against a log of four messages whose last three
  hold one user message. White space alone is \<open>empty\<close>; \<open>game\<close> between blanks is
  \<open>too_short\<close> though it is a keyword; the user message of the last three, padded with
  blanks, is \<open>repeated\<close> though it contains \<open>weather\<close>; the user message that is
  fourth from the end is not repeated; \<open>WEATHER\<close> in capitals is \<open>off_topic\<close>.
\<close>

theorem validate_priority_classification_witness:
  "validate (py '' '' @ [9, 12288]) talked_context = (False, Some (py ''empty''))
   \<and> validate (py ''  game  '') talked_context = (False, Some (py ''too_short''))
   \<and> validate (py '' The weather input is an array '') talked_context
       = (False, Some (py ''repeated''))
   \<and> validate (py ''something older'') talked_context = (True, None)
   \<and> validate (py ''How is the WEATHER today'') talked_context
       = (False, Some (py ''off_topic''))
   \<and> validate (py ''Let me think about using a hash table'') talked_context = (True, None)"
proof -
  note defs = validate_def strip_def isspace_def py_def talked_context_def last_n_def
    message_of_def create_mock_context_def off_topic_keywords_def lower_def
  have "validate (py '' '' @ [9, 12288]) talked_context = (False, Some (py ''empty''))"
    using validate_priority_classification [of "py '' '' @ [9, 12288]" talked_context]
    by (simp add: isspace_def py_def)
  moreover have "validate (py ''  game  '') talked_context = (False, Some (py ''too_short''))"
    by (simp add: defs)
  moreover have "validate (py '' The weather input is an array '') talked_context
       = (False, Some (py ''repeated''))"
    by (simp add: defs)
  moreover have "validate (py ''something older'') talked_context = (True, None)"
    by (simp add: defs)
  moreover have "validate (py ''How is the WEATHER today'') talked_context
       = (False, Some (py ''off_topic''))"
    by (simp add: defs)
  moreover have "validate (py ''Let me think about using a hash table'') talked_context
       = (True, None)"
    by (simp add: defs)
  ultimately show ?thesis by blast
qed

section \<open>Skip requests\<close>

text \<open>
  Claim C5. At a skippable stage (complexity analysis, pattern summary) a skip request
  gets a success response whose next stage is what the transition table gives for the
  current stage, and whose updates hold one entry: \<open>skipped_stages\<close>, the session's
  list with the current stage added at its end.
\<close>

theorem skip_on_skippable_stage:
  assumes "current_stage (ctx w) \<in> SKIPPABLE_STAGES"
  shows "\<exists>r. fst (handle_skip_request w) = Inr r
           \<and> success r
           \<and> next_stage r = get_next_stage (current_stage (ctx w))
           \<and> context_updates r =
               [py ''skipped_stages'' \<mapsto>
                  PyList (map PyStage (skipped_stages (ctx w) @ [current_stage (ctx w)]))]"
  using assms
  by (auto simp add: handle_skip_request_def SKIPPABLE_STAGES_def CRITICAL_STAGES_def
      create_success_response_ok Let_def)

text \<open>
  At the complexity stage of a fresh session the response moves on to pseudocode design;
  at the summary stage the table has no successor and the response suggests none.
\<close>

theorem skip_on_skippable_stage_witness:
  "current_stage (ctx (mock_world COMPLEXITY_ANALYSIS)) \<in> SKIPPABLE_STAGES
   \<and> (\<exists>r. fst (handle_skip_request (mock_world COMPLEXITY_ANALYSIS)) = Inr r
         \<and> success r
         \<and> next_stage r = Some PSEUDOCODE_DESIGN
         \<and> context_updates r =
             [py ''skipped_stages'' \<mapsto> PyList [PyStage COMPLEXITY_ANALYSIS]])
   \<and> current_stage (ctx (mock_world PATTERN_SUMMARY)) \<in> SKIPPABLE_STAGES
   \<and> (\<exists>r. fst (handle_skip_request (mock_world PATTERN_SUMMARY)) = Inr r
         \<and> success r
         \<and> next_stage r = None
         \<and> context_updates r =
             [py ''skipped_stages'' \<mapsto> PyList [PyStage PATTERN_SUMMARY]])"
proof -
  have c: "current_stage (ctx (mock_world s)) = s" "skipped_stages (ctx (mock_world s)) = []"
    for s
    by (simp_all add: mock_world_def create_mock_context_def)
  have a: "current_stage (ctx (mock_world COMPLEXITY_ANALYSIS)) \<in> SKIPPABLE_STAGES"
    and b: "current_stage (ctx (mock_world PATTERN_SUMMARY)) \<in> SKIPPABLE_STAGES"
    by (simp_all add: c SKIPPABLE_STAGES_def)
  have n: "get_next_stage COMPLEXITY_ANALYSIS = Some PSEUDOCODE_DESIGN"
    "get_next_stage PATTERN_SUMMARY = None"
    by (simp_all add: get_next_stage_def STAGE_TRANSITION_RULES_def)
  show ?thesis
    using a b skip_on_skippable_stage [OF a] skip_on_skippable_stage [OF b]
    by (simp add: c n)
qed

text \<open>
  Claim C6. At a critical stage (thought articulation, pseudocode design, edge-case
  check) a skip request gets a success response with no next stage, and whose updates
  hold one entry: \<open>skip_requested\<close>, true.
\<close>

theorem skip_on_critical_stage:
  assumes "current_stage (ctx w) \<in> CRITICAL_STAGES"
  shows "\<exists>r. fst (handle_skip_request w) = Inr r
           \<and> success r
           \<and> next_stage r = None
           \<and> context_updates r = [py ''skip_requested'' \<mapsto> PyBool True]"
  using assms
  by (auto simp add: handle_skip_request_def CRITICAL_STAGES_def
      create_success_response_ok Let_def)

theorem skip_on_critical_stage_witness:
  "current_stage (ctx (mock_world PSEUDOCODE_DESIGN)) \<in> CRITICAL_STAGES
   \<and> (\<exists>r. fst (handle_skip_request (mock_world PSEUDOCODE_DESIGN)) = Inr r
         \<and> success r
         \<and> next_stage r = None
         \<and> context_updates r (py ''skip_requested'') = Some (PyBool True))"
proof -
  have a: "current_stage (ctx (mock_world PSEUDOCODE_DESIGN)) \<in> CRITICAL_STAGES"
    by (simp add: mock_world_def create_mock_context_def CRITICAL_STAGES_def)
  from skip_on_critical_stage [OF a] obtain r where
    "fst (handle_skip_request (mock_world PSEUDOCODE_DESIGN)) = Inr r" "success r"
    "next_stage r = None" "context_updates r = [py ''skip_requested'' \<mapsto> PyBool True]"
    by blast
  then have "fst (handle_skip_request (mock_world PSEUDOCODE_DESIGN)) = Inr r \<and> success r
    \<and> next_stage r = None \<and> context_updates r (py ''skip_requested'') = Some (PyBool True)"
    by simp
  with a show ?thesis by blast
qed

section \<open>Invalid input and help mode\<close>

text \<open>
  Claim C7. With the counter of consecutive invalid inputs at 2, handling an invalid
  input of any category returns the help-mode response: success, no next stage, the
  detailed-hint text, and updates that set the counter to 0 and \<open>help_mode_triggered\<close>
  to true. With the counter at 1 the response is a success with no next stage, its text
  one of the four canned messages, and its updates hold the counter alone, set to 2:
  help mode is not triggered.
\<close>

theorem invalid_input_help_mode_threshold:
  "(consecutive_invalid_inputs (ctx w) = 2 \<longrightarrow>
      (\<exists>r. fst (handle_invalid_input w input_type) = Inr r
         \<and> success r
         \<and> next_stage r = None
         \<and> assistant_message r =
             py ''I notice you might be stuck. No worries! Let me help you with a more detailed hint.''
             @ [10, 10] @ py ''Try thinking about it this way: ''
             @ [91, 20855, 20307, 30340, 24341, 23548, 38382, 39064, 20250, 22312, 36825,
                37324, 29983, 25104, 93]
         \<and> context_updates r =
             [py ''consecutive_invalid_inputs'' \<mapsto> PyInt 0,
              py ''help_mode_triggered'' \<mapsto> PyBool True]))
   \<and> (consecutive_invalid_inputs (ctx w) = 1 \<longrightarrow>
      (\<exists>r. fst (handle_invalid_input w input_type) = Inr r
         \<and> success r
         \<and> next_stage r = None
         \<and> assistant_message r \<in>
             {py ''I didn't catch that. Could you share your thoughts?'',
              py ''That's a bit brief! Could you elaborate a bit more?'',
              py ''Hmm, that seems unrelated. Let me rephrase the question.'',
              py ''I notice you've said something similar before. Want to try a different angle?''}
         \<and> context_updates r = [py ''consecutive_invalid_inputs'' \<mapsto> PyInt 2]
         \<and> context_updates r (py ''help_mode_triggered'') = None))"
proof (intro conjI impI)
  assume "consecutive_invalid_inputs (ctx w) = 2"
  then show "\<exists>r. fst (handle_invalid_input w input_type) = Inr r
         \<and> success r
         \<and> next_stage r = None
         \<and> assistant_message r =
             py ''I notice you might be stuck. No worries! Let me help you with a more detailed hint.''
             @ [10, 10] @ py ''Try thinking about it this way: ''
             @ [91, 20855, 20307, 30340, 24341, 23548, 38382, 39064, 20250, 22312, 36825,
                37324, 29983, 25104, 93]
         \<and> context_updates r =
             [py ''consecutive_invalid_inputs'' \<mapsto> PyInt 0,
              py ''help_mode_triggered'' \<mapsto> PyBool True]"
    by (simp add: handle_invalid_input_def trigger_help_mode_def create_success_response_ok)
next
  assume one: "consecutive_invalid_inputs (ctx w) = 1"
  let ?templates =
    "[(py ''empty'', py ''I didn't catch that. Could you share your thoughts?''),
      (py ''too_short'', py ''That's a bit brief! Could you elaborate a bit more?''),
      (py ''off_topic'', py ''Hmm, that seems unrelated. Let me rephrase the question.''),
      (py ''repeated'',
         py ''I notice you've said something similar before. Want to try a different angle?'')]"
  let ?msg = "case map_of ?templates input_type of
                Some t \<Rightarrow> t
              | None \<Rightarrow> py ''I didn't catch that. Could you share your thoughts?''"
  have msg_in: "?msg \<in>
             {py ''I didn't catch that. Could you share your thoughts?'',
              py ''That's a bit brief! Could you elaborate a bit more?'',
              py ''Hmm, that seems unrelated. Let me rephrase the question.'',
              py ''I notice you've said something similar before. Want to try a different angle?''}"
    by simp
  then have "?msg \<noteq> []" by auto
  with one msg_in show "\<exists>r. fst (handle_invalid_input w input_type) = Inr r
         \<and> success r
         \<and> next_stage r = None
         \<and> assistant_message r \<in>
             {py ''I didn't catch that. Could you share your thoughts?'',
              py ''That's a bit brief! Could you elaborate a bit more?'',
              py ''Hmm, that seems unrelated. Let me rephrase the question.'',
              py ''I notice you've said something similar before. Want to try a different angle?''}
         \<and> context_updates r = [py ''consecutive_invalid_inputs'' \<mapsto> PyInt 2]
         \<and> context_updates r (py ''help_mode_triggered'') = None"
    by (simp add: handle_invalid_input_def create_success_response_ok)
qed

theorem invalid_input_help_mode_threshold_witness:
  "consecutive_invalid_inputs (ctx (mock_world_with_count PROBLEM_CLARIFICATION 2)) = 2
   \<and> (\<exists>r. fst (handle_invalid_input (mock_world_with_count PROBLEM_CLARIFICATION 2)
                 (py ''empty'')) = Inr r
         \<and> success r
         \<and> next_stage r = None
         \<and> context_updates r (py ''consecutive_invalid_inputs'') = Some (PyInt 0)
         \<and> context_updates r (py ''help_mode_triggered'') = Some (PyBool True))
   \<and> consecutive_invalid_inputs (ctx (mock_world_with_count PROBLEM_CLARIFICATION 1)) = 1
   \<and> (\<exists>r. fst (handle_invalid_input (mock_world_with_count PROBLEM_CLARIFICATION 1)
                 (py ''too_short'')) = Inr r
         \<and> success r
         \<and> next_stage r = None
         \<and> context_updates r (py ''consecutive_invalid_inputs'') = Some (PyInt 2)
         \<and> context_updates r (py ''help_mode_triggered'') = None)"
proof -
  let ?w2 = "mock_world_with_count PROBLEM_CLARIFICATION 2"
  let ?w1 = "mock_world_with_count PROBLEM_CLARIFICATION 1"
  have two: "consecutive_invalid_inputs (ctx ?w2) = 2"
    and one: "consecutive_invalid_inputs (ctx ?w1) = 1"
    by (simp_all add: mock_world_with_count_def create_mock_context_def)
  from two invalid_input_help_mode_threshold [of ?w2 "py ''empty''"] obtain r2 where
    "fst (handle_invalid_input ?w2 (py ''empty'')) = Inr r2" "success r2"
    "next_stage r2 = None"
    "context_updates r2 =
       [py ''consecutive_invalid_inputs'' \<mapsto> PyInt 0,
        py ''help_mode_triggered'' \<mapsto> PyBool True]"
    by blast
  then have h2: "\<exists>r. fst (handle_invalid_input ?w2 (py ''empty'')) = Inr r
         \<and> success r
         \<and> next_stage r = None
         \<and> context_updates r (py ''consecutive_invalid_inputs'') = Some (PyInt 0)
         \<and> context_updates r (py ''help_mode_triggered'') = Some (PyBool True)"
    by simp
  from one invalid_input_help_mode_threshold [of ?w1 "py ''too_short''"] obtain r1 where
    "fst (handle_invalid_input ?w1 (py ''too_short'')) = Inr r1" "success r1"
    "next_stage r1 = None"
    "context_updates r1 = [py ''consecutive_invalid_inputs'' \<mapsto> PyInt 2]"
    by blast
  then have h1: "\<exists>r. fst (handle_invalid_input ?w1 (py ''too_short'')) = Inr r
         \<and> success r
         \<and> next_stage r = None
         \<and> context_updates r (py ''consecutive_invalid_inputs'') = Some (PyInt 2)
         \<and> context_updates r (py ''help_mode_triggered'') = None"
    by simp
  from two h2 one h1 show ?thesis by blast
qed

section \<open>Frustration\<close>

text \<open>
  Claim C8. Whatever the session and whatever the generator draws, handling frustration
  returns a success response with no next stage, whose updates set
  \<open>frustration_detected\<close> to true and \<open>hint_level\<close> to \<open>detailed\<close>, and whose text
  is one of the three encouragement texts followed by the hint offer.
\<close>

theorem frustration_response:
  "\<exists>r. fst (handle_frustration w draw) = Inr r
     \<and> success r
     \<and> next_stage r = None
     \<and> context_updates r =
         [py ''frustration_detected'' \<mapsto> PyBool True,
          py ''hint_level'' \<mapsto> PyStr (py ''detailed'')]
     \<and> (\<exists>i<3. assistant_message r = encouragements ! i @ hint_offer)
     \<and> length encouragements = 3"
proof -
  have len: "length encouragements = 3" by (simp add: encouragements_def)
  let ?i = "draw mod 3"
  let ?r = "\<lparr>success = True, assistant_message = encouragements ! ?i @ hint_offer,
             next_stage = None,
             context_updates =
               [py ''frustration_detected'' \<mapsto> PyBool True,
                py ''hint_level'' \<mapsto> PyStr (py ''detailed'')],
             response_metadata = Map.empty, error_message = None,
             exception_level = None\<rparr>"
  have ne: "encouragements \<noteq> []" using len by auto
  have nz: "encouragements ! ?i @ hint_offer \<noteq> []"
    by (simp add: hint_offer_def)
  have run: "fst (handle_frustration w draw) = Inr ?r"
    using len ne nz
    by (simp add: handle_frustration_def random_choice_def create_success_response_ok)
  have "?i < 3" by simp
  then have "\<exists>i<3. assistant_message ?r = encouragements ! i @ hint_offer"
    by (intro exI [of _ ?i]) simp
  with run len show ?thesis
    by (intro exI [of _ ?r]) simp
qed

section \<open>The handlers read the session only\<close>

text \<open>
  Claim C9. After each of the four recovery operations (skip, invalid input,
  frustration, generation failure) the session object is the one the call received, in
  every field: what the operation decides is in the response it returns, and the world
  changes in its trace alone.
\<close>

theorem handlers_leave_session_unchanged:
  "ctx (snd (handle_skip_request w)) = ctx w
   \<and> ctx (snd (handle_invalid_input w input_type)) = ctx w
   \<and> ctx (snd (handle_frustration w draw)) = ctx w
   \<and> ctx (snd (handle_llm_failure w error retry_count max_retries)) = ctx w"
  by (simp add: handle_skip_request_def handle_invalid_input_def trigger_help_mode_def
      handle_frustration_def handle_llm_failure_def logger_def time_sleep_def Let_def
      split: outcome.split option.split)

section \<open>The wrapper does not retry\<close>

text \<open>
  Claim C10. When the wrapper's call of \<open>process\<close> raises \<open>LLMCallException\<close> (the
  wrapper calls \<open>process\<close> once the precondition check has returned true), the wrapper
  returns what the failure handler returns for the retry count 0 and the maximum 3: it
  sleeps 1 time unit and returns \<open>None\<close>, no response. \<open>process\<close> has been called
  once in that call of the wrapper.
\<close>

theorem llm_failure_single_attempt_returns_none:
  assumes "validate_context m (ctx w) = (Returns True, c1)"
    and "process m c1 = (Raises (LLMCallException msg lvl), c2)"
  shows "safe_module_call m w =
           handle_llm_failure (w\<lparr>ctx := c2, trace := trace w @ [Validated, Processed]\<rparr>)
             (LLMCallException msg lvl) 0 3
         \<and> fst (safe_module_call m w) = Inr None
         \<and> process_calls (trace (snd (safe_module_call m w))) = process_calls (trace w) + 1
         \<and> sleeps (trace (snd (safe_module_call m w))) = sleeps (trace w) @ [1]"
  using assms
  by (simp add: safe_module_call_def handle_llm_failure_def logger_def time_sleep_def
      power_int_def)

theorem llm_failure_single_attempt_returns_none_witness:
  "validate_context failing_module (ctx (mock_world THOUGHT_ARTICULATION))
     = (Returns True, ctx (mock_world THOUGHT_ARTICULATION))
   \<and> process failing_module (ctx (mock_world THOUGHT_ARTICULATION))
     = (Raises (LLMCallException (py ''upstream unavailable'') ERROR),
        ctx (mock_world THOUGHT_ARTICULATION))
   \<and> fst (safe_module_call failing_module (mock_world THOUGHT_ARTICULATION)) = Inr None
   \<and> process_calls
        (trace (snd (safe_module_call failing_module (mock_world THOUGHT_ARTICULATION)))) = 1
   \<and> sleeps
        (trace (snd (safe_module_call failing_module (mock_world THOUGHT_ARTICULATION)))) = [1]"
proof -
  let ?w = "mock_world THOUGHT_ARTICULATION"
  have v: "validate_context failing_module (ctx ?w) = (Returns True, ctx ?w)"
    by (simp add: failing_module_def)
  have p: "process failing_module (ctx ?w)
            = (Raises (LLMCallException (py ''upstream unavailable'') ERROR), ctx ?w)"
    by (simp add: failing_module_def)
  have t: "trace ?w = []"
    by (simp add: mock_world_def)
  note run = llm_failure_single_attempt_returns_none [OF v p, THEN conjunct2]
  show ?thesis
    using v p run by (simp add: t)
qed

end
